theory Spec2Isabelle
  imports Main
begin

section \<open>The CLTK pipeline orchestrator (cltkv1/nlp.py)\<close>

text \<open>
  The module defines the table \<open>pipelines\<close> and the class \<open>NLP\<close> with its constructor,
  \<open>_get_pipeline\<close> and \<open>analyze\<close>. Everything it imports (\<open>get_lang\<close>, \<open>Language\<close>,
  \<open>Doc\<close>, \<open>Pipeline\<close>, the five default pipeline classes, the exceptions) lives in other
  modules of the package; those parts are parameters of the model or are written after the
  specification, and each such definition says so.
\<close>

subsection \<open>Exceptions\<close>

text \<open>
  Exceptions are values. \<open>UnknownLanguageError\<close> and \<open>UnimplementedLanguageError\<close> carry
  their message; \<open>KeyError\<close> is what a failed dictionary lookup raises; \<open>OtherError\<close>
  stands for every other exception a collaborator may raise.
\<close>

datatype exn =
    UnknownLanguageError string
  | UnimplementedLanguageError string
  | KeyError string
  | OtherError string

subsection \<open>Data model\<close>

text \<open>
  Modelled from the spec: the \<open>Language\<close> descriptor, of which the module reads the
  attribute \<open>iso_639_3_code\<close> only.
\<close>

record Language =
  iso_639_3_code :: string
  name :: string

text \<open>
  Modelled from the spec: a \<open>Word\<close>, with the attributes the doctests of \<open>analyze\<close> print
  (the back reference \<open>parent_token\<close> is left out). An unset attribute is \<open>None\<close>.
\<close>

record Word =
  index_char_start :: "nat option"
  index_char_stop :: "nat option"
  index_token :: "nat option"
  index_sentence :: "nat option"
  string :: "string option"
  pos :: "string option"
  lemma_form :: "string option"
  scansion :: "string option"
  xpos :: "string option"
  upos :: "string option"
  dependency_relation :: "string option"
  governor :: "nat option"
  feats :: "string option"

text \<open>
  Modelled from the spec: the Document, a mutable object with a language code, the raw
  text and the derived sentences and words. An attribute nobody has set is \<open>None\<close>.
\<close>

record Doc =
  language :: "string option"
  raw :: "string option"
  sentences :: "Word list list option"
  words :: "Word list option"

text \<open>
  Documents are mutable objects that the code passes by reference, so they live in a store:
  a reference is an index into the list of all Documents created so far, and creating a
  Document appends to it.
\<close>

type_synonym ref = nat
type_synonym heap = "Doc list"

definition alloc :: "heap \<Rightarrow> Doc \<Rightarrow> heap \<times> ref" where
  "alloc h d = (h @ [d], length h)"

text \<open>
  Modelled from the spec: the call \<open>Doc(language=code, raw=text)\<close>, which sets the two
  attributes given and leaves every other one unset.
\<close>

definition new_Doc :: "string \<Rightarrow> string \<Rightarrow> Doc" where
  "new_Doc code text =
     \<lparr>language = Some code, raw = Some text, sentences = None, words = None\<rparr>"

text \<open>
  Modelled from the spec: a Process type. The orchestrator uses it in three statements,
  \<open>a_process = process(input_doc=doc, language=code)\<close>, \<open>a_process.run()\<close> and
  \<open>doc = a_process.output_doc\<close>; together they take the store, the reference of the input
  Document and the language code, and leave a store and either an exception or the
  reference of the output Document. A Process is foreign code: it may change the store in
  any way, also when it fails.
\<close>

type_synonym Process = "heap \<Rightarrow> ref \<Rightarrow> string \<Rightarrow> heap \<times> (exn + ref)"

text \<open>
  Modelled from the spec: a Pipeline, a description, an ordered sequence of Process types
  and the Language it targets.
\<close>

record Pipeline =
  description :: string
  processes :: "Process list"
  language :: Language

text \<open>The orchestrator object: the two attributes the constructor assigns.\<close>

record NLP =
  language :: Language
  pipeline :: Pipeline

subsection \<open>The collaborators of the constructor\<close>

text \<open>
  Modelled from the spec: \<open>get_lang\<close>, the lookup in the Language Registry, a pure function
  that fails with \<open>UnknownLanguageError\<close> when the code is not in the registry's table. The
  table itself is the parameter \<open>LANGUAGES\<close>.
\<close>

definition get_lang :: "(string \<rightharpoonup> Language) \<Rightarrow> string \<Rightarrow> exn + Language" where
  "get_lang LANGUAGES iso_code =
     (case LANGUAGES iso_code of
        None \<Rightarrow> Inl (UnknownLanguageError iso_code)
      | Some lang \<Rightarrow> Inr lang)"

text \<open>
  The five default pipeline classes are not part of the module. Each is called without
  arguments; the outcome of that call, an exception or the new Pipeline, is a parameter.
\<close>

record pipeline_classes =
  LatinPipeline :: "exn + Pipeline"
  GreekPipeline :: "exn + Pipeline"
  OCSPipeline :: "exn + Pipeline"
  OldFrenchPipeline :: "exn + Pipeline"
  GothicPipeline :: "exn + Pipeline"

text \<open>The module's table \<open>pipelines\<close>, from language code to pipeline class.\<close>

definition pipelines :: "pipeline_classes \<Rightarrow> string \<rightharpoonup> (exn + Pipeline)" where
  "pipelines cls =
     [''lat'' \<mapsto> LatinPipeline cls,
      ''grc'' \<mapsto> GreekPipeline cls,
      ''chu'' \<mapsto> OCSPipeline cls,
      ''fro'' \<mapsto> OldFrenchPipeline cls,
      ''got'' \<mapsto> GothicPipeline cls]"

subsection \<open>The class NLP\<close>

text \<open>
  \<open>_get_pipeline\<close>: look the resolved code up in \<open>pipelines\<close> and call the class found. A
  \<open>KeyError\<close>, from the lookup or from the call, becomes \<open>UnimplementedLanguageError\<close> with
  the code as its message; any other exception of the call passes through.
\<close>

definition get_pipeline :: "pipeline_classes \<Rightarrow> Language \<Rightarrow> exn + Pipeline" where
  "get_pipeline cls lang =
     (case pipelines cls (iso_639_3_code lang) of
        None \<Rightarrow> Inl (UnimplementedLanguageError (iso_639_3_code lang))
      | Some made \<Rightarrow>
          (case made of
             Inl (KeyError _) \<Rightarrow> Inl (UnimplementedLanguageError (iso_639_3_code lang))
           | Inl e \<Rightarrow> Inl e
           | Inr p \<Rightarrow> Inr p))"

text \<open>The message of the constructor's \<open>UnknownLanguageError\<close>.\<close>

definition unknown_language_message :: "string \<Rightarrow> string" where
  "unknown_language_message lang_arg =
     ''Unknown language '' @ [CHR 0x27] @ lang_arg @ [CHR 0x27] @ ''. Use ISO 639-3 languages.''"

text \<open>
  Modelled from the spec: the truth value Python gives a Pipeline object. The Pipeline of
  the specification is a plain value object with three attributes and neither a length nor
  a truth method, and Python takes every such object as true.
\<close>

definition always_true :: "Pipeline \<Rightarrow> bool" where
  "always_true p = True"

text \<open>
  The constructor \<open>NLP.__init__\<close>. Its parameters beside the two arguments are the registry
  table, the outcomes of the default pipeline classes and \<open>truthy\<close>, the truth value Python
  gives a Pipeline object in \<open>custom_pipeline if custom_pipeline else ...\<close> (\<open>None\<close> is
  false). The store of Documents is passed through, so that the result tells which
  Documents exist after the call.
\<close>

definition NLP_init ::
  "(string \<rightharpoonup> Language) \<Rightarrow> pipeline_classes \<Rightarrow> (Pipeline \<Rightarrow> bool) \<Rightarrow>
     heap \<Rightarrow> string \<Rightarrow> Pipeline option \<Rightarrow> heap \<times> (exn + NLP)" where
  "NLP_init LANGUAGES cls truthy h lang_arg custom_pipeline =
     (case get_lang LANGUAGES lang_arg of
        Inl (UnknownLanguageError _) \<Rightarrow>
          (h, Inl (UnknownLanguageError (unknown_language_message lang_arg)))
      | Inl e \<Rightarrow> (h, Inl e)
      | Inr lang \<Rightarrow>
          (let chosen =
                 (case custom_pipeline of
                    None \<Rightarrow> get_pipeline cls lang
                  | Some p \<Rightarrow> if truthy p then Inr p else get_pipeline cls lang)
           in case chosen of
                Inl e \<Rightarrow> (h, Inl e)
              | Inr p \<Rightarrow> (h, Inr \<lparr>NLP.language = lang, pipeline = p\<rparr>)))"

text \<open>
  The loop of \<open>analyze\<close>: each Process type in turn gets the current Document and the
  language code; its output Document becomes the current one; an exception ends the loop.
\<close>

fun run_processes :: "Process list \<Rightarrow> string \<Rightarrow> heap \<Rightarrow> ref \<Rightarrow> heap \<times> (exn + ref)" where
  "run_processes [] code h doc = (h, Inr doc)"
| "run_processes (process # rest) code h doc =
     (case process h doc code of
        (h', Inl e) \<Rightarrow> (h', Inl e)
      | (h', Inr output_doc) \<Rightarrow> run_processes rest code h' output_doc)"

text \<open>
  \<open>NLP.analyze\<close>: a new Document with the resolved code and the text, then the loop. The
  result is the orchestrator object after the call, the store after the call and the
  exception or the reference returned.
\<close>

definition analyze :: "NLP \<Rightarrow> heap \<Rightarrow> string \<Rightarrow> NLP \<times> heap \<times> (exn + ref)" where
  "analyze self h text =
     (let code = iso_639_3_code (NLP.language self);
          (h0, doc) = alloc h (new_Doc code text)
      in (self, run_processes (processes (pipeline self)) code h0 doc))"

subsection \<open>Notions used to state the properties\<close>

text \<open>
  A run of the pipeline written out as the sequence of its states, each a store and the
  reference of the current Document: step \<open>i\<close> is the \<open>i\<close>-th Process type of the
  pipeline, it starts from state \<open>i\<close>, it succeeds, and what it leaves is state \<open>i + 1\<close>.
\<close>

definition steps_ok :: "Process list \<Rightarrow> string \<Rightarrow> (heap \<times> ref) list \<Rightarrow> bool" where
  "steps_ok ps code sts \<longleftrightarrow>
     (\<forall>i<length ps.
        (ps ! i) (fst (sts ! i)) (snd (sts ! i)) code
          = (fst (sts ! Suc i), Inr (snd (sts ! Suc i))))"

text \<open>The Document a result refers to, read from the store the call left.\<close>

definition deref :: "heap \<Rightarrow> exn + ref \<Rightarrow> exn + Doc" where
  "deref h r = (case r of Inl e \<Rightarrow> Inl e | Inr d \<Rightarrow> Inr (h ! d))"

text \<open>
  The contract the specification gives a Process: it is stateless, it consumes a Document
  and a language code, and it returns a new or updated Document or fails. \<open>implements p f\<close>
  says that the Process type \<open>p\<close> keeps this contract with the function \<open>f\<close> from Document
  and code to exception or Document: on every store, \<open>p\<close> fails exactly when \<open>f\<close> does and
  with the same exception, its output Document holds what \<open>f\<close> computes from the input
  Document, the output is the input object or an object created by this call, and no
  other Document that existed before the call is changed.
\<close>

definition implements :: "Process \<Rightarrow> (Doc \<Rightarrow> string \<Rightarrow> exn + Doc) \<Rightarrow> bool" where
  "implements p f \<longleftrightarrow>
     (\<forall>h d code. d < length h \<longrightarrow>
        (case p h d code of
           (h', r) \<Rightarrow>
             length h \<le> length h' \<and>
             (\<forall>i<length h. i \<noteq> d \<longrightarrow> h' ! i = h ! i) \<and>
             (case f (h ! d) code of
                Inl e \<Rightarrow> r = Inl e
              | Inr D \<Rightarrow>
                  (\<exists>out. r = Inr out \<and> out < length h' \<and> (out = d \<or> length h \<le> out) \<and>
                     h' ! out = D))))"

text \<open>The functions of a pipeline's steps composed in order, stopping at the first failure.\<close>

fun run_pure :: "(Doc \<Rightarrow> string \<Rightarrow> exn + Doc) list \<Rightarrow> string \<Rightarrow> Doc \<Rightarrow> exn + Doc" where
  "run_pure [] code D = Inr D"
| "run_pure (f # fs) code D =
     (case f D code of Inl e \<Rightarrow> Inl e | Inr D' \<Rightarrow> run_pure fs code D')"

subsection \<open>Sample inputs\<close>

text \<open>A registry table with Latin, which has a default pipeline, and Middle English, which has none.\<close>

definition sample_languages :: "string \<rightharpoonup> Language" where
  "sample_languages =
     [''lat'' \<mapsto> \<lparr>iso_639_3_code = ''lat'', name = ''Latin''\<rparr>,
      ''axm'' \<mapsto> \<lparr>iso_639_3_code = ''axm'', name = ''Middle English''\<rparr>]"

definition sample_word :: "string option \<Rightarrow> Word" where
  "sample_word s =
     \<lparr>index_char_start = None, index_char_stop = None, index_token = Some 1,
      index_sentence = Some 0, string = s, pos = None, lemma_form = None, scansion = None,
      xpos = None, upos = None, dependency_relation = None, governor = None, feats = None\<rparr>"

text \<open>
  A tokenizer that copies its input Document, stores one word holding the raw text in the
  copy and returns the copy.
\<close>

definition tokenize_pure :: "Doc \<Rightarrow> string \<Rightarrow> exn + Doc" where
  "tokenize_pure D code = Inr (D\<lparr>words := Some [sample_word (raw D)]\<rparr>)"

definition sample_tokenizer :: Process where
  "sample_tokenizer h d code =
     (if d < length h
      then (case tokenize_pure (h ! d) code of
              Inl e \<Rightarrow> (h, Inl e)
            | Inr D \<Rightarrow> (case alloc h D of (h', out) \<Rightarrow> (h', Inr out)))
      else (h, Inl (OtherError ''no such Document'')))"

text \<open>
  A tagger that updates its input Document in place, and fails when no earlier step has
  stored the words.
\<close>

definition tag_pure :: "Doc \<Rightarrow> string \<Rightarrow> exn + Doc" where
  "tag_pure D code =
     (case words D of
        None \<Rightarrow> Inl (OtherError ''Document has no words'')
      | Some ws \<Rightarrow> Inr (D\<lparr>words := Some (map (\<lambda>w. w\<lparr>upos := Some ''X''\<rparr>) ws)\<rparr>))"

definition sample_tagger :: Process where
  "sample_tagger h d code =
     (if d < length h
      then (case tag_pure (h ! d) code of
              Inl e \<Rightarrow> (h, Inl e)
            | Inr D \<Rightarrow> (h[d := D], Inr d))
      else (h, Inl (OtherError ''no such Document'')))"

text \<open>A step that always fails, as one whose model file is missing does.\<close>

definition sample_failing :: Process where
  "sample_failing h d code = (h, Inl (OtherError ''resource missing''))"

definition lat_language :: Language where
  "lat_language = \<lparr>iso_639_3_code = ''lat'', name = ''Latin''\<rparr>"

definition axm_language :: Language where
  "axm_language = \<lparr>iso_639_3_code = ''axm'', name = ''Middle English''\<rparr>"

definition sample_pipeline :: Pipeline where
  "sample_pipeline =
     \<lparr>description = ''tokenize, then tag'',
      processes = [sample_tokenizer, sample_tagger],
      Pipeline.language = lat_language\<rparr>"

definition tagger_first_pipeline :: Pipeline where
  "tagger_first_pipeline =
     \<lparr>description = ''tag, then tokenize'',
      processes = [sample_tagger, sample_tokenizer],
      Pipeline.language = lat_language\<rparr>"

definition failing_pipeline :: Pipeline where
  "failing_pipeline =
     \<lparr>description = ''tokenize, fail, tag'',
      processes = [sample_tokenizer, sample_failing, sample_tagger],
      Pipeline.language = lat_language\<rparr>"

definition empty_pipeline :: Pipeline where
  "empty_pipeline =
     \<lparr>description = ''no steps'', processes = [], Pipeline.language = axm_language\<rparr>"

definition sample_classes :: pipeline_classes where
  "sample_classes =
     \<lparr>LatinPipeline = Inr sample_pipeline,
      GreekPipeline = Inr sample_pipeline,
      OCSPipeline = Inr sample_pipeline,
      OldFrenchPipeline = Inr sample_pipeline,
      GothicPipeline = Inr sample_pipeline\<rparr>"

text \<open>The Documents the two steps make of the initial Latin Document for a text.\<close>

definition sample_tokenized :: "string \<Rightarrow> Doc" where
  "sample_tokenized t = (new_Doc ''lat'' t)\<lparr>words := Some [sample_word (Some t)]\<rparr>"

definition sample_tagged :: "string \<Rightarrow> Doc" where
  "sample_tagged t =
     (new_Doc ''lat'' t)\<lparr>words := Some [(sample_word (Some t))\<lparr>upos := Some ''X''\<rparr>]\<rparr>"

definition sample_nlp :: NLP where
  "sample_nlp = \<lparr>NLP.language = lat_language, pipeline = sample_pipeline\<rparr>"

definition failing_nlp :: NLP where
  "failing_nlp = \<lparr>NLP.language = lat_language, pipeline = failing_pipeline\<rparr>"

text \<open>
  A truth value other than Python's default: that of a Pipeline class whose length is the
  number of its processes, under which a Pipeline without processes is false.
\<close>

definition true_if_nonempty :: "Pipeline \<Rightarrow> bool" where
  "true_if_nonempty p \<longleftrightarrow> processes p \<noteq> []"

section \<open>Properties\<close>

subsection \<open>Helper facts\<close>

lemma get_lang_unknown:
  "LANGUAGES lang_arg = None \<Longrightarrow> get_lang LANGUAGES lang_arg = Inl (UnknownLanguageError lang_arg)"
  by (simp add: get_lang_def)

lemma get_lang_known:
  "LANGUAGES lang_arg = Some lang \<Longrightarrow> get_lang LANGUAGES lang_arg = Inr lang"
  by (simp add: get_lang_def)

lemma get_pipeline_missing:
  "pipelines cls (iso_639_3_code lang) = None \<Longrightarrow>
     get_pipeline cls lang = Inl (UnimplementedLanguageError (iso_639_3_code lang))"
  by (simp add: get_pipeline_def)

lemma sample_languages_simps:
  "sample_languages ''lat'' = Some lat_language"
  "sample_languages ''axm'' = Some axm_language"
  "sample_languages ''xxx'' = None"
  by (simp_all add: sample_languages_def lat_language_def axm_language_def)

lemma pipelines_axm: "pipelines cls (iso_639_3_code axm_language) = None"
  by (simp add: pipelines_def axm_language_def)

lemma pipelines_lat: "pipelines cls (iso_639_3_code lat_language) = Some (LatinPipeline cls)"
  by (simp add: pipelines_def lat_language_def)

text \<open>The run of the loop, written out as a sequence of states.\<close>

lemma steps_ok_Nil: "steps_ok [] code sts"
  by (simp add: steps_ok_def)

lemma steps_ok_Cons:
  "steps_ok (p # ps) code (s # sts) \<longleftrightarrow>
     p (fst s) (snd s) code = (fst (sts ! 0), Inr (snd (sts ! 0))) \<and> steps_ok ps code sts"
proof -
  have "(\<forall>i<Suc (length ps). P i) \<longleftrightarrow> P 0 \<and> (\<forall>i<length ps. P (Suc i))" for P
    by (metis less_Suc_eq_0_disj Suc_less_eq zero_less_Suc)
  then show ?thesis
    by (simp add: steps_ok_def)
qed

lemma run_processes_ok_iff:
  "run_processes ps code h d = (h', Inr d') \<longleftrightarrow>
     (\<exists>sts. length sts = Suc (length ps) \<and> sts ! 0 = (h, d) \<and> steps_ok ps code sts \<and>
        sts ! length ps = (h', d'))"
proof (induction ps arbitrary: h d)
  case Nil
  show ?case
  proof
    assume "run_processes [] code h d = (h', Inr d')"
    then have "length [(h, d)] = Suc (length ([]::Process list)) \<and> [(h, d)] ! 0 = (h, d) \<and>
        steps_ok [] code [(h, d)] \<and> [(h, d)] ! length ([]::Process list) = (h', d')"
      by (simp add: steps_ok_Nil)
    then show "\<exists>sts. length sts = Suc (length ([]::Process list)) \<and> sts ! 0 = (h, d) \<and>
        steps_ok [] code sts \<and> sts ! length ([]::Process list) = (h', d')"
      by blast
  next
    assume "\<exists>sts. length sts = Suc (length ([]::Process list)) \<and> sts ! 0 = (h, d) \<and>
        steps_ok [] code sts \<and> sts ! length ([]::Process list) = (h', d')"
    then show "run_processes [] code h d = (h', Inr d')"
      by auto
  qed
next
  case (Cons p ps)
  show ?case
  proof
    assume run: "run_processes (p # ps) code h d = (h', Inr d')"
    then obtain h1 d1 where step: "p h d code = (h1, Inr d1)"
      and rest: "run_processes ps code h1 d1 = (h', Inr d')"
      by (auto split: prod.splits sum.splits)
    from rest obtain sts where sts: "length sts = Suc (length ps)" "sts ! 0 = (h1, d1)"
        "steps_ok ps code sts" "sts ! length ps = (h', d')"
      using Cons.IH by blast
    have "length ((h, d) # sts) = Suc (length (p # ps)) \<and> ((h, d) # sts) ! 0 = (h, d) \<and>
        steps_ok (p # ps) code ((h, d) # sts) \<and> ((h, d) # sts) ! length (p # ps) = (h', d')"
      using sts step by (simp add: steps_ok_Cons)
    then show "\<exists>sts. length sts = Suc (length (p # ps)) \<and> sts ! 0 = (h, d) \<and>
        steps_ok (p # ps) code sts \<and> sts ! length (p # ps) = (h', d')"
      by blast
  next
    assume "\<exists>sts. length sts = Suc (length (p # ps)) \<and> sts ! 0 = (h, d) \<and>
        steps_ok (p # ps) code sts \<and> sts ! length (p # ps) = (h', d')"
    then obtain sts where sts: "length sts = Suc (length (p # ps))" "sts ! 0 = (h, d)"
        "steps_ok (p # ps) code sts" "sts ! length (p # ps) = (h', d')"
      by blast
    then obtain s rest where split: "sts = s # rest"
      by (cases sts) auto
    with sts have s: "s = (h, d)" and len: "length rest = Suc (length ps)"
      and step: "p h d code = (fst (rest ! 0), Inr (snd (rest ! 0)))"
      and ok: "steps_ok ps code rest" and final: "rest ! length ps = (h', d')"
      by (auto simp: steps_ok_Cons)
    have "run_processes ps code (fst (rest ! 0)) (snd (rest ! 0)) = (h', Inr d')"
      using Cons.IH [of "fst (rest ! 0)" "snd (rest ! 0)"] len ok final by auto
    then show "run_processes (p # ps) code h d = (h', Inr d')"
      by (simp add: step)
  qed
qed


lemma run_processes_error_iff:
  "run_processes ps code h d = (h', Inl e) \<longleftrightarrow>
     (\<exists>k<length ps. \<exists>sts. length sts = Suc k \<and> sts ! 0 = (h, d) \<and>
        steps_ok (take k ps) code sts \<and>
        (ps ! k) (fst (sts ! k)) (snd (sts ! k)) code = (h', Inl e))"
proof (induction ps arbitrary: h d)
  case Nil
  show ?case by simp
next
  case (Cons p ps)
  show ?case
  proof
    assume run: "run_processes (p # ps) code h d = (h', Inl e)"
    show "\<exists>k<length (p # ps). \<exists>sts. length sts = Suc k \<and> sts ! 0 = (h, d) \<and>
        steps_ok (take k (p # ps)) code sts \<and>
        ((p # ps) ! k) (fst (sts ! k)) (snd (sts ! k)) code = (h', Inl e)"
    proof (cases "snd (p h d code)")
      case (Inl e1)
      with run have fails: "p h d code = (h', Inl e)"
        by (auto split: prod.splits sum.splits)
      have "length [(h, d)] = Suc 0 \<and> [(h, d)] ! 0 = (h, d) \<and>
          steps_ok (take 0 (p # ps)) code [(h, d)] \<and>
          ((p # ps) ! 0) (fst ([(h, d)] ! 0)) (snd ([(h, d)] ! 0)) code = (h', Inl e)"
        using fails by (simp add: steps_ok_Nil)
      then show ?thesis
        by (intro exI [of _ 0] conjI exI [of _ "[(h, d)]"]) simp_all
    next
      case (Inr d1)
      then obtain h1 where step: "p h d code = (h1, Inr d1)"
        by (cases "p h d code") auto
      with run have "run_processes ps code h1 d1 = (h', Inl e)"
        by simp
      then obtain k sts where k: "k < length ps" and sts: "length sts = Suc k"
          "sts ! 0 = (h1, d1)" "steps_ok (take k ps) code sts"
          "(ps ! k) (fst (sts ! k)) (snd (sts ! k)) code = (h', Inl e)"
        using Cons.IH by blast
      have "length ((h, d) # sts) = Suc (Suc k) \<and> ((h, d) # sts) ! 0 = (h, d) \<and>
          steps_ok (take (Suc k) (p # ps)) code ((h, d) # sts) \<and>
          ((p # ps) ! Suc k) (fst (((h, d) # sts) ! Suc k)) (snd (((h, d) # sts) ! Suc k)) code
            = (h', Inl e)"
        using sts step by (simp add: steps_ok_Cons)
      moreover have "Suc k < length (p # ps)"
        using k by simp
      ultimately show ?thesis
        by blast
    qed
  next
    assume "\<exists>k<length (p # ps). \<exists>sts. length sts = Suc k \<and> sts ! 0 = (h, d) \<and>
        steps_ok (take k (p # ps)) code sts \<and>
        ((p # ps) ! k) (fst (sts ! k)) (snd (sts ! k)) code = (h', Inl e)"
    then obtain k sts where k: "k < length (p # ps)" and sts: "length sts = Suc k"
        "sts ! 0 = (h, d)" "steps_ok (take k (p # ps)) code sts"
        "((p # ps) ! k) (fst (sts ! k)) (snd (sts ! k)) code = (h', Inl e)"
      by blast
    show "run_processes (p # ps) code h d = (h', Inl e)"
    proof (cases k)
      case 0
      with sts show ?thesis by simp
    next
      case (Suc j)
      from sts Suc obtain s rest where split: "sts = s # rest"
        by (cases sts) auto
      with sts Suc have len: "length rest = Suc j"
        and step: "p h d code = (fst (rest ! 0), Inr (snd (rest ! 0)))"
        and ok: "steps_ok (take j ps) code rest"
        and fails: "(ps ! j) (fst (rest ! j)) (snd (rest ! j)) code = (h', Inl e)"
        by (auto simp: steps_ok_Cons)
      have "j < length ps"
        using k Suc by simp
      then have "run_processes ps code (fst (rest ! 0)) (snd (rest ! 0)) = (h', Inl e)"
        using Cons.IH [of "fst (rest ! 0)" "snd (rest ! 0)"] len ok fails by auto
      then show ?thesis
        by (simp add: step)
    qed
  qed
qed

lemma sample_nlp_simps:
  "processes (pipeline sample_nlp) = [sample_tokenizer, sample_tagger]"
  "iso_639_3_code (NLP.language sample_nlp) = ''lat''"
  by (simp_all add: sample_nlp_def sample_pipeline_def lat_language_def)

lemma failing_nlp_simps:
  "processes (pipeline failing_nlp) = [sample_tokenizer, sample_failing, sample_tagger]"
  "iso_639_3_code (NLP.language failing_nlp) = ''lat''"
  by (simp_all add: failing_nlp_def failing_pipeline_def lat_language_def)

lemma sample_tokenizer_step:
  "sample_tokenizer [new_Doc ''lat'' t] 0 code
     = ([new_Doc ''lat'' t, sample_tokenized t], Inr (Suc 0))"
  by (simp add: sample_tokenizer_def tokenize_pure_def alloc_def sample_tokenized_def new_Doc_def)

lemma sample_tagger_step:
  "sample_tagger [new_Doc ''lat'' t, sample_tokenized t] (Suc 0) code
     = ([new_Doc ''lat'' t, sample_tagged t], Inr (Suc 0))"
  by (simp add: sample_tagger_def tag_pure_def sample_tokenized_def sample_tagged_def new_Doc_def)

text \<open>Processes that keep the contract, run in sequence, compute the composed function.\<close>

lemma implementsD:
  assumes "implements p f" and "d < length h" and "p h d code = (h', r)"
  shows "length h \<le> length h'"
    and "\<forall>i<length h. i \<noteq> d \<longrightarrow> h' ! i = h ! i"
    and "case f (h ! d) code of
           Inl e \<Rightarrow> r = Inl e
         | Inr D \<Rightarrow> (\<exists>out. r = Inr out \<and> out < length h' \<and> (out = d \<or> length h \<le> out) \<and>
                      h' ! out = D)"
  using assms unfolding implements_def by (fastforce split: prod.splits)+

lemma run_processes_implements:
  assumes "list_all2 implements ps fs" and "d < length h"
    and "run_processes ps code h d = (h', r)"
  shows "length h \<le> length h' \<and>
         (\<forall>i<length h. i \<noteq> d \<longrightarrow> h' ! i = h ! i) \<and>
         (case run_pure fs code (h ! d) of
            Inl e \<Rightarrow> r = Inl e
          | Inr D \<Rightarrow> (\<exists>out. r = Inr out \<and> out < length h' \<and> (out = d \<or> length h \<le> out) \<and>
                       h' ! out = D))"
  using assms
proof (induction ps fs arbitrary: h d rule: list_all2_induct)
  case Nil
  then show ?case by auto
next
  case (Cons p ps f fs)
  obtain h1 r1 where step: "p h d code = (h1, r1)"
    by (cases "p h d code") auto
  note c = implementsD [OF Cons.hyps(1) Cons.prems(1) step]
  show ?case
  proof (cases "f (h ! d) code")
    case (Inl e)
    with c(3) have "r1 = Inl e" by simp
    with step Cons.prems(2) have "h' = h1" "r = Inl e" by auto
    with c Inl show ?thesis by simp
  next
    case (Inr D)
    with c(3) obtain out where out: "r1 = Inr out" "out < length h1"
        "out = d \<or> length h \<le> out" "h1 ! out = D"
      by auto
    with step Cons.prems(2) have rest: "run_processes ps code h1 out = (h', r)"
      by simp
    note ih = Cons.IH [OF out(2) rest]
    have len: "length h \<le> length h'"
      using c(1) ih by simp
    have frame: "\<forall>i<length h. i \<noteq> d \<longrightarrow> h' ! i = h ! i"
    proof (intro allI impI)
      fix i assume i: "i < length h" "i \<noteq> d"
      then have "i \<noteq> out" using out(3) by auto
      moreover have "i < length h1" using i c(1) by simp
      ultimately have "h' ! i = h1 ! i" using ih by simp
      also have "h1 ! i = h ! i" using c(2) i by simp
      finally show "h' ! i = h ! i" .
    qed
    have res: "case run_pure fs code D of
            Inl e \<Rightarrow> r = Inl e
          | Inr D' \<Rightarrow> (\<exists>out'. r = Inr out' \<and> out' < length h' \<and> (out' = d \<or> length h \<le> out') \<and>
                       h' ! out' = D')"
    proof (cases "run_pure fs code D")
      case (Inl e)
      with ih out(4) show ?thesis by simp
    next
      case (Inr D')
      with ih out(4) obtain out' where o: "r = Inr out'" "out' < length h'"
          "out' = out \<or> length h1 \<le> out'" "h' ! out' = D'"
        by auto
      have "out' = d \<or> length h \<le> out'"
        using o(3) out(3) c(1) by auto
      with o Inr show ?thesis by simp
    qed
    show ?thesis
      using len frame res Inr by simp
  qed
qed

lemma analyze_implements:
  assumes "list_all2 implements (processes (pipeline self)) fs"
    and "analyze self h text = (self', h', r)"
  shows "length h < length h' \<and>
         (\<forall>i<length h. h' ! i = h ! i) \<and>
         deref h' r = run_pure fs (iso_639_3_code (NLP.language self))
                        (new_Doc (iso_639_3_code (NLP.language self)) text) \<and>
         (\<forall>d. r = Inr d \<longrightarrow> length h \<le> d \<and> d < length h')"
proof -
  let ?code = "iso_639_3_code (NLP.language self)"
  let ?h0 = "h @ [new_Doc ?code text]"
  have run: "run_processes (processes (pipeline self)) ?code ?h0 (length h) = (h', r)"
    using assms(2) by (auto simp: analyze_def alloc_def Let_def)
  have "length h < length ?h0" by simp
  note f = run_processes_implements [OF assms(1) this run]
  have len: "length h < length h'"
    using f by simp
  have frame: "\<forall>i<length h. h' ! i = h ! i"
  proof (intro allI impI)
    fix i assume i: "i < length h"
    then have "h' ! i = ?h0 ! i" using f by simp
    then show "h' ! i = h ! i" using i by (simp add: nth_append)
  qed
  have res: "case run_pure fs ?code (new_Doc ?code text) of
            Inl e \<Rightarrow> r = Inl e
          | Inr D \<Rightarrow> (\<exists>out. r = Inr out \<and> out < length h' \<and> length h \<le> out \<and> h' ! out = D)"
    using f by (auto split: sum.splits)
  have val: "deref h' r = run_pure fs ?code (new_Doc ?code text)"
    using res by (auto simp: deref_def split: sum.splits)
  have fresh: "\<forall>d. r = Inr d \<longrightarrow> length h \<le> d \<and> d < length h'"
    using res by (auto split: sum.splits)
  show ?thesis
    using len frame val fresh by simp
qed


lemma implements_sample_tokenizer: "implements sample_tokenizer tokenize_pure"
  by (simp add: implements_def sample_tokenizer_def tokenize_pure_def alloc_def nth_append)

lemma implements_sample_tagger: "implements sample_tagger tag_pure"
  by (auto simp: implements_def sample_tagger_def tag_pure_def split: option.splits)

lemma sample_first_call:
  "analyze sample_nlp [] ''a'' = (sample_nlp, [new_Doc ''lat'' ''a'', sample_tagged ''a''], Inr 1)"
  by (simp add: analyze_def alloc_def Let_def sample_nlp_simps sample_tokenizer_def
      tokenize_pure_def sample_tagger_def tag_pure_def new_Doc_def sample_tagged_def
      numeral_3_eq_3)

lemma sample_second_call:
  "analyze sample_nlp ([new_Doc ''lat'' ''a'', sample_tagged ''a''][1 := new_Doc ''xxx'' ''changed'']) ''b''
     = (sample_nlp,
        [new_Doc ''lat'' ''a'', new_Doc ''xxx'' ''changed'', new_Doc ''lat'' ''b'', sample_tagged ''b''],
        Inr 3)"
  by (simp add: analyze_def alloc_def Let_def sample_nlp_simps sample_tokenizer_def
      tokenize_pure_def sample_tagger_def tag_pure_def new_Doc_def sample_tagged_def
      numeral_3_eq_3)

subsection \<open>The constructor\<close>

text \<open>
  C2. When the language code is not in the Language Registry, the constructor raises
  \<open>UnknownLanguageError\<close> with the message built from the code. This is so whatever
  custom pipeline is supplied, whatever the default pipeline classes would do and whatever
  truth value a Pipeline has, so no pipeline is selected first; the store of Documents
  after the call is the store before it, and there is no orchestrator to call \<open>analyze\<close>
  on.
\<close>

theorem unknown_language_raises:
  "LANGUAGES lang_arg = None \<Longrightarrow>
     NLP_init LANGUAGES cls truthy h lang_arg custom_pipeline
       = (h, Inl (UnknownLanguageError (unknown_language_message lang_arg)))"
  by (simp add: NLP_init_def get_lang_unknown)

theorem unknown_language_raises_witness:
  "sample_languages ''xxx'' = None \<and>
   NLP_init sample_languages sample_classes always_true [] ''xxx'' (Some sample_pipeline)
     = ([], Inl (UnknownLanguageError ''Unknown language 'xxx'. Use ISO 639-3 languages.''))"
  using unknown_language_raises [of sample_languages "''xxx''" sample_classes always_true
      "[]" "Some sample_pipeline"]
  by (simp add: sample_languages_simps unknown_language_message_def)

text \<open>
  C3. When the Language Registry knows the code but the table \<open>pipelines\<close> has no entry
  for the resolved code, constructing without a custom pipeline raises
  \<open>UnimplementedLanguageError\<close> with that code, and not \<open>UnknownLanguageError\<close>.
\<close>

theorem unimplemented_language_raises:
  "LANGUAGES lang_arg = Some lang \<Longrightarrow> pipelines cls (iso_639_3_code lang) = None \<Longrightarrow>
     NLP_init LANGUAGES cls truthy h lang_arg None
       = (h, Inl (UnimplementedLanguageError (iso_639_3_code lang))) \<and>
     (\<forall>m. snd (NLP_init LANGUAGES cls truthy h lang_arg None) \<noteq> Inl (UnknownLanguageError m))"
  by (simp add: NLP_init_def get_lang_known get_pipeline_missing)

theorem unimplemented_language_raises_witness:
  "sample_languages ''axm'' = Some axm_language \<and>
   pipelines sample_classes (iso_639_3_code axm_language) = None \<and>
   NLP_init sample_languages sample_classes always_true [] ''axm'' None
     = ([], Inl (UnimplementedLanguageError ''axm''))"
  using unimplemented_language_raises [of sample_languages "''axm''" axm_language
      sample_classes always_true "[]"]
  by (simp add: sample_languages_simps pipelines_axm) (simp add: axm_language_def)

text \<open>
  C5. Every custom Pipeline object becomes the orchestrator's pipeline as it is, whatever
  the default pipeline classes would do and also when the table \<open>pipelines\<close> has no entry
  for the language: the default lookup plays no part and no \<open>UnimplementedLanguageError\<close>
  is raised. This is so with the truth value of the specification's Pipeline, under which
  every Pipeline object is true, and more generally for any truth value and any object
  that is true under it.
\<close>

theorem custom_pipeline_used:
  "LANGUAGES lang_arg = Some lang \<Longrightarrow>
     NLP_init LANGUAGES cls always_true h lang_arg (Some p)
       = (h, Inr \<lparr>NLP.language = lang, pipeline = p\<rparr>) \<and>
     (truthy p \<longrightarrow>
        NLP_init LANGUAGES cls truthy h lang_arg (Some p)
          = (h, Inr \<lparr>NLP.language = lang, pipeline = p\<rparr>))"
  by (simp add: NLP_init_def get_lang_known always_true_def)

theorem custom_pipeline_used_witness:
  "sample_languages ''axm'' = Some axm_language \<and>
   pipelines sample_classes (iso_639_3_code axm_language) = None \<and>
   NLP_init sample_languages sample_classes always_true [] ''axm'' (Some empty_pipeline)
     = ([], Inr \<lparr>NLP.language = axm_language, pipeline = empty_pipeline\<rparr>) \<and>
   true_if_nonempty tagger_first_pipeline \<and>
   NLP_init sample_languages sample_classes true_if_nonempty [] ''axm''
       (Some tagger_first_pipeline)
     = ([], Inr \<lparr>NLP.language = axm_language, pipeline = tagger_first_pipeline\<rparr>)"
proof -
  have known: "sample_languages ''axm'' = Some axm_language"
    by (simp add: sample_languages_simps)
  have true: "true_if_nonempty tagger_first_pipeline"
    by (simp add: true_if_nonempty_def tagger_first_pipeline_def)
  have plain:
    "NLP_init sample_languages sample_classes always_true [] ''axm'' (Some empty_pipeline)
       = ([], Inr \<lparr>NLP.language = axm_language, pipeline = empty_pipeline\<rparr>)"
    using known
      custom_pipeline_used [where LANGUAGES = sample_languages and lang_arg = "''axm''"
        and lang = axm_language and cls = sample_classes and h = "[]"
        and p = empty_pipeline and truthy = true_if_nonempty]
    by blast
  have other:
    "NLP_init sample_languages sample_classes true_if_nonempty [] ''axm''
         (Some tagger_first_pipeline)
       = ([], Inr \<lparr>NLP.language = axm_language, pipeline = tagger_first_pipeline\<rparr>)"
    using known true
      custom_pipeline_used [where LANGUAGES = sample_languages and lang_arg = "''axm''"
        and lang = axm_language and cls = sample_classes and h = "[]"
        and p = tagger_first_pipeline and truthy = true_if_nonempty]
    by blast
  show ?thesis
    by (intro conjI known pipelines_axm plain true other)
qed

text \<open>
  C8. The constructor chooses by truth value: when the argument is \<open>None\<close> or a Pipeline
  that Python takes as false, the orchestrator gets what the default lookup
  \<open>_get_pipeline\<close> gives for the resolved language, an exception or a pipeline, and the
  supplied object is not used; in particular, when \<open>pipelines\<close> has no entry for the
  language, the constructor raises \<open>UnimplementedLanguageError\<close>.
\<close>

theorem falsy_custom_pipeline_uses_default:
  assumes known: "LANGUAGES lang_arg = Some lang"
    and falsy: "custom_pipeline = None \<or> (\<exists>p. custom_pipeline = Some p \<and> \<not> truthy p)"
  shows "NLP_init LANGUAGES cls truthy h lang_arg custom_pipeline
       = (h, case get_pipeline cls lang of
               Inl e \<Rightarrow> Inl e
             | Inr p \<Rightarrow> Inr \<lparr>NLP.language = lang, pipeline = p\<rparr>) \<and>
     (pipelines cls (iso_639_3_code lang) = None \<longrightarrow>
        NLP_init LANGUAGES cls truthy h lang_arg custom_pipeline
          = (h, Inl (UnimplementedLanguageError (iso_639_3_code lang))))"
proof -
  have chosen: "(case custom_pipeline of
                   None \<Rightarrow> get_pipeline cls lang
                 | Some p \<Rightarrow> if truthy p then Inr p else get_pipeline cls lang)
                = get_pipeline cls lang"
    using falsy by auto
  have init: "NLP_init LANGUAGES cls truthy h lang_arg custom_pipeline
       = (h, case get_pipeline cls lang of
               Inl e \<Rightarrow> Inl e
             | Inr p \<Rightarrow> Inr \<lparr>NLP.language = lang, pipeline = p\<rparr>)"
    using known by (simp add: NLP_init_def get_lang_known chosen split: sum.splits)
  show ?thesis
    by (simp add: init get_pipeline_missing)
qed

theorem falsy_custom_pipeline_uses_default_witness:
  "sample_languages ''lat'' = Some lat_language \<and>
   \<not> true_if_nonempty empty_pipeline \<and>
   NLP_init sample_languages sample_classes true_if_nonempty [] ''lat'' (Some empty_pipeline)
     = ([], Inr \<lparr>NLP.language = lat_language, pipeline = sample_pipeline\<rparr>)"
  using falsy_custom_pipeline_uses_default [of sample_languages "''lat''" lat_language
      "Some empty_pipeline" true_if_nonempty sample_classes "[]"]
  by (simp add: sample_languages_simps true_if_nonempty_def empty_pipeline_def
      get_pipeline_def pipelines_lat sample_classes_def)

subsection \<open>analyze\<close>

text \<open>
  C1. \<open>analyze\<close> returns the reference \<open>d\<close> and leaves the store \<open>h'\<close> exactly when
  there is a sequence of states, one more than there are Process types in the pipeline,
  such that: the first state is the store extended by the initial Document, which holds
  the orchestrator's resolved code and the raw text, with that Document as the current
  one; for every \<open>i\<close>, the \<open>i\<close>-th Process type of the pipeline, given state \<open>i\<close> and the
  resolved code, succeeds and leaves state \<open>i + 1\<close>; and the last state is \<open>h'\<close> with
  \<open>d\<close>. So the steps are those of the pipeline in its order, each once, and the input of
  each step is the output of the one before.
\<close>

theorem analyze_runs_pipeline_in_order:
  "analyze self h text = (self', h', Inr d) \<longleftrightarrow>
     self' = self \<and>
     (\<exists>sts. length sts = Suc (length (processes (pipeline self))) \<and>
        sts ! 0 = (h @ [new_Doc (iso_639_3_code (NLP.language self)) text], length h) \<and>
        steps_ok (processes (pipeline self)) (iso_639_3_code (NLP.language self)) sts \<and>
        sts ! length (processes (pipeline self)) = (h', d))"
  by (auto simp: analyze_def alloc_def Let_def run_processes_ok_iff)

theorem analyze_runs_pipeline_in_order_witness:
  "steps_ok (processes (pipeline sample_nlp)) ''lat''
     [([new_Doc ''lat'' ''Gallia''], 0),
      ([new_Doc ''lat'' ''Gallia'', sample_tokenized ''Gallia''], 1),
      ([new_Doc ''lat'' ''Gallia'', sample_tagged ''Gallia''], 1)] \<and>
   analyze sample_nlp [] ''Gallia''
     = (sample_nlp, [new_Doc ''lat'' ''Gallia'', sample_tagged ''Gallia''], Inr 1)"
proof -
  let ?sts = "[([new_Doc ''lat'' ''Gallia''], 0),
      ([new_Doc ''lat'' ''Gallia'', sample_tokenized ''Gallia''], 1),
      ([new_Doc ''lat'' ''Gallia'', sample_tagged ''Gallia''], 1::nat)]"
  have ok: "steps_ok (processes (pipeline sample_nlp)) ''lat'' ?sts"
    by (simp add: sample_nlp_simps steps_ok_Cons steps_ok_Nil sample_tokenizer_step
        sample_tagger_step)
  have "length ?sts = Suc (length (processes (pipeline sample_nlp))) \<and>
      ?sts ! 0 = ([] @ [new_Doc (iso_639_3_code (NLP.language sample_nlp)) ''Gallia''], length ([]::heap)) \<and>
      steps_ok (processes (pipeline sample_nlp)) (iso_639_3_code (NLP.language sample_nlp)) ?sts \<and>
      ?sts ! length (processes (pipeline sample_nlp))
        = ([new_Doc ''lat'' ''Gallia'', sample_tagged ''Gallia''], 1)"
    using ok by (simp add: sample_nlp_simps)
  then have "analyze sample_nlp [] ''Gallia''
     = (sample_nlp, [new_Doc ''lat'' ''Gallia'', sample_tagged ''Gallia''], Inr 1)"
    using analyze_runs_pipeline_in_order [of sample_nlp "[]" "''Gallia''" sample_nlp
        "[new_Doc ''lat'' ''Gallia'', sample_tagged ''Gallia'']" 1]
    by blast
  with ok show ?thesis
    by simp
qed

text \<open>
  C4. \<open>analyze\<close> ends with the exception \<open>e\<close> and the store \<open>h'\<close> exactly when some
  step \<open>k\<close> of the pipeline, reached from the initial Document through \<open>k\<close> successful
  steps, fails with \<open>e\<close> and leaves \<open>h'\<close>. The exception is the one the Process raised,
  no later step runs, and the result is the exception and no Document reference.
\<close>

theorem process_error_propagates:
  "analyze self h text = (self', h', Inl e) \<longleftrightarrow>
     self' = self \<and>
     (\<exists>k<length (processes (pipeline self)). \<exists>sts.
        length sts = Suc k \<and>
        sts ! 0 = (h @ [new_Doc (iso_639_3_code (NLP.language self)) text], length h) \<and>
        steps_ok (take k (processes (pipeline self))) (iso_639_3_code (NLP.language self)) sts \<and>
        (processes (pipeline self) ! k) (fst (sts ! k)) (snd (sts ! k))
            (iso_639_3_code (NLP.language self))
          = (h', Inl e))"
  by (auto simp: analyze_def alloc_def Let_def run_processes_error_iff)

theorem process_error_propagates_witness:
  "steps_ok (take 1 (processes (pipeline failing_nlp))) ''lat''
     [([new_Doc ''lat'' ''Gallia''], 0),
      ([new_Doc ''lat'' ''Gallia'', sample_tokenized ''Gallia''], 1)] \<and>
   (processes (pipeline failing_nlp) ! 1)
       [new_Doc ''lat'' ''Gallia'', sample_tokenized ''Gallia''] 1 ''lat''
     = ([new_Doc ''lat'' ''Gallia'', sample_tokenized ''Gallia''],
        Inl (OtherError ''resource missing'')) \<and>
   analyze failing_nlp [] ''Gallia''
     = (failing_nlp, [new_Doc ''lat'' ''Gallia'', sample_tokenized ''Gallia''],
        Inl (OtherError ''resource missing''))"
proof -
  let ?sts = "[([new_Doc ''lat'' ''Gallia''], 0),
      ([new_Doc ''lat'' ''Gallia'', sample_tokenized ''Gallia''], 1::nat)]"
  let ?hf = "[new_Doc ''lat'' ''Gallia'', sample_tokenized ''Gallia'']"
  have ok: "steps_ok (take 1 (processes (pipeline failing_nlp))) ''lat'' ?sts"
    by (simp add: failing_nlp_simps steps_ok_Cons steps_ok_Nil sample_tokenizer_step)
  have fails: "(processes (pipeline failing_nlp) ! 1) ?hf 1 ''lat''
      = (?hf, Inl (OtherError ''resource missing''))"
    by (simp add: failing_nlp_simps sample_failing_def)
  have "1 < length (processes (pipeline failing_nlp)) \<and>
      length ?sts = Suc 1 \<and>
      ?sts ! 0 = ([] @ [new_Doc (iso_639_3_code (NLP.language failing_nlp)) ''Gallia''], length ([]::heap)) \<and>
      steps_ok (take 1 (processes (pipeline failing_nlp)))
        (iso_639_3_code (NLP.language failing_nlp)) ?sts \<and>
      (processes (pipeline failing_nlp) ! 1) (fst (?sts ! 1)) (snd (?sts ! 1))
          (iso_639_3_code (NLP.language failing_nlp))
        = (?hf, Inl (OtherError ''resource missing''))"
    using ok fails by (simp add: failing_nlp_simps)
  then have "analyze failing_nlp [] ''Gallia''
     = (failing_nlp, ?hf, Inl (OtherError ''resource missing''))"
    using process_error_propagates [of failing_nlp "[]" "''Gallia''" failing_nlp ?hf
        "OtherError ''resource missing''"]
    by blast
  with ok fails show ?thesis
    by simp
qed

text \<open>
  C9. \<open>analyze\<close> leaves the orchestrator as it found it, whether it returns a Document or
  an exception: the object after the call is the object before it, with the same language
  and the same pipeline, so a later call on it is a call on the original.
\<close>

theorem analyze_keeps_orchestrator:
  "fst (analyze self h text) = self \<and>
   NLP.language (fst (analyze self h text)) = NLP.language self \<and>
   pipeline (fst (analyze self h text)) = pipeline self \<and>
   analyze (fst (analyze self h text)) h2 text2 = analyze self h2 text2"
  by (simp add: analyze_def alloc_def Let_def)

text \<open>
  C10. With an empty sequence of processes, \<open>analyze\<close> runs no step: the store grows by
  the initial Document only, the reference returned is that Document's, and the Document
  has the resolved code as its language, the text as its raw text and neither sentences
  nor words.
\<close>

theorem analyze_empty_pipeline:
  "processes (pipeline self) = [] \<Longrightarrow>
     analyze self h text
       = (self,
          h @ [\<lparr>Doc.language = Some (iso_639_3_code (NLP.language self)), raw = Some text,
                sentences = None, words = None\<rparr>],
          Inr (length h)) \<and>
     (fst (snd (analyze self h text))) ! length h
       = \<lparr>Doc.language = Some (iso_639_3_code (NLP.language self)), raw = Some text,
          sentences = None, words = None\<rparr>"
  by (simp add: analyze_def alloc_def new_Doc_def Let_def)

theorem analyze_empty_pipeline_witness:
  "processes (pipeline \<lparr>NLP.language = axm_language, pipeline = empty_pipeline\<rparr>) = [] \<and>
   analyze \<lparr>NLP.language = axm_language, pipeline = empty_pipeline\<rparr> [] ''abc''
     = (\<lparr>NLP.language = axm_language, pipeline = empty_pipeline\<rparr>,
        [\<lparr>Doc.language = Some ''axm'', raw = Some ''abc'', sentences = None, words = None\<rparr>],
        Inr 0)"
  using analyze_empty_pipeline [of "\<lparr>NLP.language = axm_language, pipeline = empty_pipeline\<rparr>"
      "[]" "''abc''"]
  by (simp add: empty_pipeline_def) (simp add: axm_language_def)

text \<open>
  C7. Let every Process type of the pipeline keep the contract \<open>implements\<close> with a function
  of Document and code. Take a first call that returned the Document \<open>d1\<close>, overwrite that
  Document with any value \<open>D\<close>, and call \<open>analyze\<close> again. Then the orchestrator is unchanged
  by both calls; \<open>d1\<close> was created by the first call; the outcome of the second call, read
  from the store, is what the composed functions make of the initial Document for the
  resolved code and the second text, and it is the outcome the second call has without the
  overwrite; a Document returned by the second call is created by that call and is not
  \<open>d1\<close>; and \<open>d1\<close> still holds \<open>D\<close>. Statelessness of every Process is the standing
  condition of the specification; \<open>analyze\<close> itself keeps nothing between calls.
\<close>

theorem analyze_calls_independent:
  assumes contract: "list_all2 implements (processes (pipeline self)) fs"
    and first: "analyze self h text1 = (self1, h1, Inr d1)"
    and second: "analyze self1 (h1[d1 := D]) text2 = (self2, h2, r2)"
  shows "self1 = self \<and> self2 = self \<and>
         length h \<le> d1 \<and> d1 < length h1 \<and>
         deref h2 r2 = run_pure fs (iso_639_3_code (NLP.language self))
                         (new_Doc (iso_639_3_code (NLP.language self)) text2) \<and>
         deref h2 r2 = deref (fst (snd (analyze self h1 text2))) (snd (snd (analyze self h1 text2))) \<and>
         (\<forall>d2. r2 = Inr d2 \<longrightarrow> d2 \<noteq> d1 \<and> length h1 \<le> d2 \<and> d2 < length h2) \<and>
         h2 ! d1 = D"
proof -
  let ?code = "iso_639_3_code (NLP.language self)"
  have s1: "self1 = self"
    using first by (auto simp: analyze_def alloc_def Let_def)
  have s2: "self2 = self"
    using second s1 by (auto simp: analyze_def alloc_def Let_def)
  note a1 = analyze_implements [OF contract first]
  have d1: "length h \<le> d1" "d1 < length h1"
    using a1 by auto
  from second s1 have second': "analyze self (h1[d1 := D]) text2 = (self2, h2, r2)"
    by simp
  note a2 = analyze_implements [OF contract second']
  have val: "deref h2 r2 = run_pure fs ?code (new_Doc ?code text2)"
    using a2 by simp
  obtain s3 h3 r3 where third: "analyze self h1 text2 = (s3, h3, r3)"
    by (cases "analyze self h1 text2") auto
  note a3 = analyze_implements [OF contract third]
  have same: "deref h2 r2 = deref (fst (snd (analyze self h1 text2))) (snd (snd (analyze self h1 text2)))"
    using val a3 third by simp
  have fresh: "\<forall>d2. r2 = Inr d2 \<longrightarrow> d2 \<noteq> d1 \<and> length h1 \<le> d2 \<and> d2 < length h2"
    using a2 d1 by auto
  have "h2 ! d1 = (h1[d1 := D]) ! d1"
    using a2 d1 by simp
  then have kept: "h2 ! d1 = D"
    using d1 by simp
  show ?thesis
    using s1 s2 d1 val same fresh kept by simp
qed

theorem analyze_calls_independent_witness:
  "list_all2 implements (processes (pipeline sample_nlp)) [tokenize_pure, tag_pure] \<and>
   analyze sample_nlp [] ''a''
     = (sample_nlp, [new_Doc ''lat'' ''a'', sample_tagged ''a''], Inr 1) \<and>
   analyze sample_nlp ([new_Doc ''lat'' ''a'', sample_tagged ''a''][1 := new_Doc ''xxx'' ''changed'']) ''b''
     = (sample_nlp,
        [new_Doc ''lat'' ''a'', new_Doc ''xxx'' ''changed'', new_Doc ''lat'' ''b'', sample_tagged ''b''],
        Inr 3) \<and>
   deref [new_Doc ''lat'' ''a'', new_Doc ''xxx'' ''changed'', new_Doc ''lat'' ''b'', sample_tagged ''b'']
       (Inr 3)
     = deref (fst (snd (analyze sample_nlp [new_Doc ''lat'' ''a'', sample_tagged ''a''] ''b'')))
         (snd (snd (analyze sample_nlp [new_Doc ''lat'' ''a'', sample_tagged ''a''] ''b''))) \<and>
   deref [new_Doc ''lat'' ''a'', new_Doc ''xxx'' ''changed'', new_Doc ''lat'' ''b'', sample_tagged ''b'']
       (Inr 3)
     = Inr (sample_tagged ''b'')"
proof -
  have contract: "list_all2 implements (processes (pipeline sample_nlp)) [tokenize_pure, tag_pure]"
    by (simp add: sample_nlp_simps implements_sample_tokenizer implements_sample_tagger)
  note t = analyze_calls_independent [OF contract sample_first_call sample_second_call]
  from t have same:
    "deref [new_Doc ''lat'' ''a'', new_Doc ''xxx'' ''changed'', new_Doc ''lat'' ''b'',
        sample_tagged ''b''] (Inr 3)
     = deref (fst (snd (analyze sample_nlp [new_Doc ''lat'' ''a'', sample_tagged ''a''] ''b'')))
         (snd (snd (analyze sample_nlp [new_Doc ''lat'' ''a'', sample_tagged ''a''] ''b'')))"
    by blast
  have val: "deref [new_Doc ''lat'' ''a'', new_Doc ''xxx'' ''changed'', new_Doc ''lat'' ''b'',
      sample_tagged ''b''] (Inr 3) = Inr (sample_tagged ''b'')"
    by (simp add: deref_def)
  show ?thesis
    by (intro conjI contract sample_first_call sample_second_call same val)
qed

end
